theory Spec2Isabelle
  imports Complex_Main
begin

section \<open>Python values used by \<open>ups_cache.py\<close>\<close>

text \<open>
  Strings are lists of characters; a character stands for a code point below 256. Python
  floats are modelled by the number they denote: a finite float is an exact rational
  (binary64 rounding, overflow to infinity and the sign of zero are not modelled), and the
  three special values \<open>inf\<close>, \<open>-inf\<close> and \<open>nan\<close> are separate constructors, because
  \<open>float()\<close> accepts their spellings.
\<close>

datatype pyfloat = Finite rat | PInf | NInf | NaN

datatype pyval =
    PNone
  | PBool bool
  | PInt int
  | PFloat pyfloat
  | PStr string
  | PList "pyval list"
  | PDict "(string \<times> pyval) list"

datatype pyerror =
    ValueError | OverflowError | ZeroDivisionError | TypeError | KeyError
  | AttributeError | UnboundLocalError | UnicodeEncodeError | UnicodeDecodeError
  | OSError

subsection \<open>Float arithmetic and comparison\<close>

fun fneg :: "pyfloat \<Rightarrow> pyfloat" where
  "fneg (Finite a) = Finite (- a)"
| "fneg PInf = NInf"
| "fneg NInf = PInf"
| "fneg NaN = NaN"

fun fadd :: "pyfloat \<Rightarrow> pyfloat \<Rightarrow> pyfloat" where
  "fadd NaN _ = NaN"
| "fadd _ NaN = NaN"
| "fadd (Finite a) (Finite b) = Finite (a + b)"
| "fadd PInf NInf = NaN"
| "fadd NInf PInf = NaN"
| "fadd PInf _ = PInf"
| "fadd NInf _ = NInf"
| "fadd (Finite a) PInf = PInf"
| "fadd (Finite a) NInf = NInf"

definition fsub :: "pyfloat \<Rightarrow> pyfloat \<Rightarrow> pyfloat" where
  "fsub x y = fadd x (fneg y)"

text \<open>The sign of a float: \<open>None\<close> for \<open>nan\<close>, otherwise \<open>-1\<close>, \<open>0\<close> or \<open>1\<close>.\<close>

fun fsign :: "pyfloat \<Rightarrow> int option" where
  "fsign NaN = None"
| "fsign PInf = Some 1"
| "fsign NInf = Some (- 1)"
| "fsign (Finite a) = Some (if a < 0 then - 1 else if a = 0 then 0 else 1)"

definition finf :: "int \<Rightarrow> pyfloat" where
  "finf s = (if s < 0 then NInf else if s = 0 then NaN else PInf)"

fun fmul :: "pyfloat \<Rightarrow> pyfloat \<Rightarrow> pyfloat" where
  "fmul (Finite a) (Finite b) = Finite (a * b)"
| "fmul x y =
     (case (fsign x, fsign y) of
        (Some s, Some t) \<Rightarrow> finf (s * t)
      | _ \<Rightarrow> NaN)"

text \<open>Float division raises \<open>ZeroDivisionError\<close> on a zero divisor.\<close>

fun fdiv :: "pyfloat \<Rightarrow> pyfloat \<Rightarrow> pyerror + pyfloat" where
  "fdiv x (Finite b) =
     (if b = 0 then Inl ZeroDivisionError
      else (case x of
              Finite a \<Rightarrow> Inr (Finite (a / b))
            | NaN \<Rightarrow> Inr NaN
            | PInf \<Rightarrow> Inr (if b < 0 then NInf else PInf)
            | NInf \<Rightarrow> Inr (if b < 0 then PInf else NInf)))"
| "fdiv x NaN = Inr NaN"
| "fdiv (Finite a) _ = Inr (Finite 0)"
| "fdiv NaN _ = Inr NaN"
| "fdiv _ _ = Inr NaN"

text \<open>\<open>x < y\<close> on floats: every comparison with \<open>nan\<close> is false.\<close>

fun flt :: "pyfloat \<Rightarrow> pyfloat \<Rightarrow> bool" where
  "flt NaN _ = False"
| "flt _ NaN = False"
| "flt (Finite a) (Finite b) = (a < b)"
| "flt NInf NInf = False"
| "flt NInf _ = True"
| "flt _ NInf = False"
| "flt PInf _ = False"
| "flt (Finite a) PInf = True"

definition fle :: "pyfloat \<Rightarrow> pyfloat \<Rightarrow> bool" where
  "fle x y = (flt x y \<or> (x = y \<and> x \<noteq> NaN))"

subsection \<open>Numbers of mixed type: \<open>min\<close>, \<open>max\<close>, \<open>int\<close>, \<open>round\<close>\<close>

datatype pynum = NI int | NF pyfloat

text \<open>Python compares an int with a float by value.\<close>

fun as_float :: "pynum \<Rightarrow> pyfloat" where
  "as_float (NI n) = Finite (of_int n)"
| "as_float (NF x) = x"

definition num_lt :: "pynum \<Rightarrow> pynum \<Rightarrow> bool" where
  "num_lt a b = flt (as_float a) (as_float b)"

text \<open>
  \<open>min(a, b)\<close> keeps \<open>a\<close> unless \<open>b < a\<close>; \<open>max(a, b)\<close> keeps \<open>a\<close> unless \<open>b > a\<close>.
  The result is the chosen argument itself, with its type.
\<close>

definition py_min :: "pynum \<Rightarrow> pynum \<Rightarrow> pynum" where
  "py_min a b = (if num_lt b a then b else a)"

definition py_max :: "pynum \<Rightarrow> pynum \<Rightarrow> pynum" where
  "py_max a b = (if num_lt a b then b else a)"

text \<open>\<open>int(x)\<close> truncates a finite float towards zero and raises on \<open>nan\<close> and infinities.\<close>

definition trunc_rat :: "rat \<Rightarrow> int" where
  "trunc_rat r = (if 0 \<le> r then \<lfloor>r\<rfloor> else - \<lfloor>- r\<rfloor>)"

fun py_int_num :: "pynum \<Rightarrow> pyerror + int" where
  "py_int_num (NI n) = Inr n"
| "py_int_num (NF (Finite r)) = Inr (trunc_rat r)"
| "py_int_num (NF NaN) = Inl ValueError"
| "py_int_num (NF _) = Inl OverflowError"

text \<open>\<open>round(x, 2)\<close>: to the nearest multiple of 1/100, ties to even; special values unchanged.\<close>

definition round_half_even :: "rat \<Rightarrow> int" where
  "round_half_even q =
     (let f = \<lfloor>q\<rfloor>; d = q - of_int f
      in if d < 1 / 2 then f
         else if 1 / 2 < d then f + 1
         else if even f then f else f + 1)"

fun py_round2 :: "pyfloat \<Rightarrow> pyfloat" where
  "py_round2 (Finite r) = Finite (of_int (round_half_even (r * 100)) / 100)"
| "py_round2 x = x"

section \<open>String builtins\<close>

definition is_space :: "char \<Rightarrow> bool" where
  "is_space c = (c \<in> set [CHR 0x09, CHR 0x0A, CHR 0x0B, CHR 0x0C, CHR 0x0D,
                           CHR 0x1C, CHR 0x1D, CHR 0x1E, CHR 0x1F, CHR 0x20,
                           CHR 0x85, CHR 0xA0])"

definition is_digit :: "char \<Rightarrow> bool" where
  "is_digit c = (c \<in> set ''0123456789'')"

definition digit_val :: "char \<Rightarrow> nat" where
  "digit_val c = of_char c - 48"

text \<open>\<open>s.startswith("(")\<close>.\<close>

definition startswith_paren :: "string \<Rightarrow> bool" where
  "startswith_paren s = (case s of [] \<Rightarrow> False | c # _ \<Rightarrow> c = CHR ''('')"

text \<open>\<open>s.strip(chars)\<close> removes the characters of \<open>chars\<close> from both ends.\<close>

definition py_strip :: "string \<Rightarrow> string \<Rightarrow> string" where
  "py_strip chars s =
     rev (dropWhile (\<lambda>c. c \<in> set chars) (rev (dropWhile (\<lambda>c. c \<in> set chars) s)))"

text \<open>\<open>s.strip()\<close> removes whitespace from both ends.\<close>

definition py_strip_ws :: "string \<Rightarrow> string" where
  "py_strip_ws s = rev (dropWhile is_space (rev (dropWhile is_space s)))"

text \<open>
  \<open>s.split()\<close>: the maximal runs of non-whitespace characters, in order. The second
  argument is the current run, reversed.
\<close>

fun split_aux :: "string \<Rightarrow> string \<Rightarrow> string list" where
  "split_aux [] cur = (if cur = [] then [] else [rev cur])"
| "split_aux (c # cs) cur =
     (if is_space c
      then (if cur = [] then split_aux cs [] else rev cur # split_aux cs [])
      else split_aux cs (c # cur))"

definition py_split :: "string \<Rightarrow> string list" where
  "py_split s = split_aux s []"

subsection \<open>\<open>int(s)\<close> and \<open>float(s)\<close> on strings\<close>

text \<open>A digit part is a non-empty run of digits, single underscores allowed between digits.\<close>

fun digitpart :: "string \<Rightarrow> bool" where
  "digitpart [] = False"
| "digitpart [c] = is_digit c"
| "digitpart (c # d # cs) =
     (is_digit c \<and> (if d = CHR ''_'' then digitpart cs else digitpart (d # cs)))"

definition digits_value :: "string \<Rightarrow> nat" where
  "digits_value s = foldl (\<lambda>acc c. 10 * acc + digit_val c) 0 (filter is_digit s)"

text \<open>An optional sign, split off: the sign as \<open>1\<close> or \<open>-1\<close> and the rest.\<close>

fun split_sign :: "string \<Rightarrow> int \<times> string" where
  "split_sign [] = (1, [])"
| "split_sign (c # cs) =
     (if c = CHR ''-'' then (- 1, cs) else if c = CHR ''+'' then (1, cs) else (1, c # cs))"

text \<open>
  \<open>int(s)\<close> in base 10; \<open>None\<close> stands for the \<open>ValueError\<close>. The limit that recent
  interpreters put on the number of digits is not modelled.
\<close>

definition py_int :: "string \<Rightarrow> int option" where
  "py_int s =
     (let (sg, body) = split_sign (py_strip_ws s)
      in if digitpart body then Some (sg * int (digits_value body)) else None)"

definition to_lower :: "char \<Rightarrow> char" where
  "to_lower c =
     (let n = (of_char c :: nat) in if 65 \<le> n \<and> n \<le> 90 then char_of (n + 32) else c)"

text \<open>
  The unsigned part of a float literal: \<open>[digitpart] "." digitpart | digitpart ["."]\<close>,
  then an optional exponent \<open>("e" | "E") [sign] digitpart\<close>.
\<close>

definition is_exp_mark :: "char \<Rightarrow> bool" where
  "is_exp_mark c = (c = CHR ''e'' \<or> c = CHR ''E'')"

definition parse_exponent :: "string \<Rightarrow> int option" where
  "parse_exponent rest =
     (case rest of
        [] \<Rightarrow> Some 0
      | _ # e \<Rightarrow>
          (let (sg, body) = split_sign e
           in if digitpart body then Some (sg * int (digits_value body)) else None))"

definition parse_mantissa :: "string \<Rightarrow> rat option" where
  "parse_mantissa m =
     (let ip = takeWhile (\<lambda>c. c \<noteq> CHR ''.'') m;
          r = dropWhile (\<lambda>c. c \<noteq> CHR ''.'') m
      in case r of
           [] \<Rightarrow> (if digitpart ip then Some (of_nat (digits_value ip)) else None)
         | _ # fp \<Rightarrow>
             (if (ip = [] \<or> digitpart ip) \<and> (fp = [] \<or> digitpart fp) \<and> \<not> (ip = [] \<and> fp = [])
              then Some (of_nat (digits_value ip)
                         + of_nat (digits_value fp) / 10 ^ length (filter is_digit fp))
              else None))"

definition pow10 :: "int \<Rightarrow> rat" where
  "pow10 e = (if 0 \<le> e then 10 ^ nat e else 1 / 10 ^ nat (- e))"

definition parse_number :: "string \<Rightarrow> rat option" where
  "parse_number s =
     (case parse_mantissa (takeWhile (\<lambda>c. \<not> is_exp_mark c) s) of
        None \<Rightarrow> None
      | Some m \<Rightarrow>
          (case parse_exponent (dropWhile (\<lambda>c. \<not> is_exp_mark c) s) of
             None \<Rightarrow> None
           | Some e \<Rightarrow> Some (m * pow10 e)))"

text \<open>\<open>float(s)\<close>; \<open>None\<close> stands for the \<open>ValueError\<close>.\<close>

definition py_float :: "string \<Rightarrow> pyfloat option" where
  "py_float s =
     (let (sg, body) = split_sign (py_strip_ws s);
          low = map to_lower body
      in if low = ''inf'' \<or> low = ''infinity'' then Some (if sg < 0 then NInf else PInf)
         else if low = ''nan'' then Some NaN
         else (case parse_number body of
                 None \<Rightarrow> None
               | Some r \<Rightarrow> Some (Finite (of_int sg * r))))"

section \<open>Configuration constants\<close>

definition CACHE_TTL :: rat where
  "CACHE_TTL = 120"

definition ZABBIX_SERVER :: string where
  "ZABBIX_SERVER = ''192.168.1.200''"

definition ZABBIX_HOSTNAME :: string where
  "ZABBIX_HOSTNAME = ''UPSMonitor''"

definition BATTERY_HIGH :: pyfloat where
  "BATTERY_HIGH = Finite 208"

definition BATTERY_LOW :: pyfloat where
  "BATTERY_LOW = Finite (16640 / 100)"

text \<open>The series multiplier \<open>96.90265487\<close> of the source.\<close>

definition SERIES_FACTOR :: rat where
  "SERIES_FACTOR = 9690265487 / 100000000"

definition STATUS_FLAGS :: "(string \<times> nat) list" where
  "STATUS_FLAGS =
     [(''utility_fail'', 7),
      (''battery_low'', 6),
      (''boost_buck_active'', 5),
      (''ups_failed'', 4),
      (''ups_type_standby'', 3),
      (''test_in_progress'', 2),
      (''shutdown_active'', 1),
      (''beeper_on'', 0)]"

section \<open>The response parser\<close>

text \<open>\<open>int(c)\<close> for a character that the guard of \<open>parse_status_bits\<close> has let through.\<close>

definition bit_of_char :: "char \<Rightarrow> int" where
  "bit_of_char c = (if c = CHR ''1'' then 1 else 0)"

definition parse_status_bits :: "string \<Rightarrow> (string \<times> pyval) list" where
  "parse_status_bits bits =
     (if length bits \<noteq> 8 \<or> \<not> list_all (\<lambda>c. c \<in> set ''01'') bits then []
      else map (\<lambda>(name, pos). (name, PInt (bit_of_char (bits ! (7 - pos))))) STATUS_FLAGS)"

text \<open>
  \<open>int(max(0, min(100, ((battery_total_voltage - BATTERY_LOW) / (BATTERY_HIGH - BATTERY_LOW)) * 100)))\<close>
\<close>

definition battery_percent :: "pyfloat \<Rightarrow> pyerror + int" where
  "battery_percent battery_total_voltage =
     (case fdiv (fsub battery_total_voltage BATTERY_LOW) (fsub BATTERY_HIGH BATTERY_LOW) of
        Inl e \<Rightarrow> Inl e
      | Inr q \<Rightarrow> py_int_num (py_max (NI 0) (py_min (NI 100) (NF (fmul q (Finite 100))))))"

text \<open>The characters of \<open>"()\r\n"\<close>.\<close>

definition strip_chars :: string where
  "strip_chars = [CHR ''('', CHR '')'', CHR 0x0D, CHR 0x0A]"

text \<open>
  A snapshot is the returned dict, in insertion order. Every exception raised inside the
  \<open>try\<close> block is caught and turned into \<open>None\<close>.
\<close>

type_synonym snapshot = "(string \<times> pyval) list"

definition parse_ups_response :: "string \<Rightarrow> snapshot option" where
  "parse_ups_response response =
     (if \<not> startswith_paren response then None
      else
        let parts = py_split (py_strip strip_chars response) in
        if length parts \<noteq> 8 then None
        else
          case py_float (parts ! 0) of None \<Rightarrow> None | Some input_voltage \<Rightarrow>
          case py_float (parts ! 1) of None \<Rightarrow> None | Some input_fault \<Rightarrow>
          case py_float (parts ! 2) of None \<Rightarrow> None | Some output_voltage \<Rightarrow>
          case py_int (parts ! 3) of None \<Rightarrow> None | Some output_current \<Rightarrow>
          case py_float (parts ! 4) of None \<Rightarrow> None | Some input_freq \<Rightarrow>
          case py_float (parts ! 5) of None \<Rightarrow> None | Some battery_voltage \<Rightarrow>
          case py_float (parts ! 6) of None \<Rightarrow> None | Some temperature \<Rightarrow>
            let status_raw = parts ! 7;
                status_flags = parse_status_bits status_raw;
                battery_total_voltage = fmul battery_voltage (Finite SERIES_FACTOR)
            in case battery_percent battery_total_voltage of
                 Inl e \<Rightarrow> None
               | Inr percent \<Rightarrow>
                   Some ([(''input_voltage'', PFloat input_voltage),
                          (''input_fault_voltage'', PFloat input_fault),
                          (''output_voltage'', PFloat output_voltage),
                          (''output_current_percent'', PInt output_current),
                          (''input_frequency'', PFloat input_freq),
                          (''battery_voltage'', PFloat battery_voltage),
                          (''battery_voltage_all'',
                             PFloat (py_round2 (fmul battery_voltage (Finite SERIES_FACTOR)))),
                          (''temperature'', PFloat temperature),
                          (''battery_charge'', PInt percent)]
                         @ status_flags))"

section \<open>Generic operations on Python values\<close>

text \<open>Truth value of an object, as tested by \<open>if x:\<close>.\<close>

fun py_truthy :: "pyval \<Rightarrow> bool" where
  "py_truthy PNone = False"
| "py_truthy (PBool b) = b"
| "py_truthy (PInt n) = (n \<noteq> 0)"
| "py_truthy (PFloat x) = (x \<noteq> Finite 0)"
| "py_truthy (PStr s) = (s \<noteq> [])"
| "py_truthy (PList xs) = (xs \<noteq> [])"
| "py_truthy (PDict kvs) = (kvs \<noteq> [])"

text \<open>\<open>data[key]\<close> with a string key.\<close>

fun py_subscript :: "pyval \<Rightarrow> string \<Rightarrow> pyerror + pyval" where
  "py_subscript (PDict kvs) key = (case map_of kvs key of None \<Rightarrow> Inl KeyError | Some v \<Rightarrow> Inr v)"
| "py_subscript _ key = Inl TypeError"

fun is_prefix :: "string \<Rightarrow> string \<Rightarrow> bool" where
  "is_prefix [] _ = True"
| "is_prefix (_ # _) [] = False"
| "is_prefix (a # as) (b # bs) = (a = b \<and> is_prefix as bs)"

fun is_substring :: "string \<Rightarrow> string \<Rightarrow> bool" where
  "is_substring key [] = (key = [])"
| "is_substring key (c # cs) = (is_prefix key (c # cs) \<or> is_substring key cs)"

text \<open>\<open>key in data\<close> with a string key.\<close>

fun py_contains :: "pyval \<Rightarrow> string \<Rightarrow> pyerror + bool" where
  "py_contains (PDict kvs) key = Inr (key \<in> set (map fst kvs))"
| "py_contains (PList xs) key = Inr (PStr key \<in> set xs)"
| "py_contains (PStr s) key = Inr (is_substring key s)"
| "py_contains _ key = Inl TypeError"

text \<open>\<open>data.items()\<close>.\<close>

fun py_items :: "pyval \<Rightarrow> pyerror + (string \<times> pyval) list" where
  "py_items (PDict kvs) = Inr kvs"
| "py_items _ = Inl AttributeError"

text \<open>
  \<open>float(n)\<close> for an int operand of float arithmetic: an int that rounds to \<open>2 ^ 1024\<close> or
  beyond raises \<open>OverflowError\<close>.
\<close>

definition int_to_float :: "int \<Rightarrow> pyerror + pyfloat" where
  "int_to_float n =
     (if \<bar>n\<bar> < 2 ^ 1024 - 2 ^ 970 then Inr (Finite (of_int n)) else Inl OverflowError)"

text \<open>\<open>t - x\<close> for a float \<open>t\<close> and an arbitrary object \<open>x\<close>; a bool counts as the int 0 or 1.\<close>

fun float_minus :: "pyfloat \<Rightarrow> pyval \<Rightarrow> pyerror + pyfloat" where
  "float_minus t (PFloat x) = Inr (fsub t x)"
| "float_minus t (PInt n) =
     (case int_to_float n of Inl e \<Rightarrow> Inl e | Inr x \<Rightarrow> Inr (fsub t x))"
| "float_minus t (PBool b) = Inr (fsub t (Finite (if b then 1 else 0)))"
| "float_minus t _ = Inl TypeError"

section \<open>The world outside the process\<close>

text \<open>
  The cache file holds either text that \<open>json.load\<close> rejects, or a JSON document, which is
  represented by the value \<open>json.load\<close> returns for it; \<open>json.dump\<close> writes the document that
  loads back as the dumped value.
\<close>

datatype file_content = Malformed | Doc pyval

text \<open>A line of the sender's input file: hostname, key, value.\<close>

type_synonym zline = "string \<times> string \<times> pyval"

record world =
  cache_file :: "file_content option"
  cache_readable :: bool
  cache_writable :: bool
  tmp_dir :: "string \<Rightarrow> zline list option"
  queries :: nat

text \<open>
  \<open>cache_file\<close> is \<open>None\<close> when \<open>os.path.exists(CACHE_FILE)\<close> is false; \<open>cache_readable\<close> and
  \<open>cache_writable\<close> say whether \<open>open(CACHE_FILE, "r")\<close> and \<open>open(CACHE_FILE, "w")\<close>
  succeed; \<open>tmp_dir\<close> maps the path of each temporary file on disk to its lines;
  \<open>queries\<close> counts the request/response exchanges made on the serial port.
\<close>

datatype sender_behaviour =
    SenderRaises pyerror
  | SenderExits int "string option" "string option"

text \<open>
  \<open>SenderRaises e\<close>: \<open>subprocess.run\<close> raises \<open>e\<close> (a missing binary raises an \<open>OSError\<close>).
  \<open>SenderExits rc out err\<close>: the process ends with return code \<open>rc\<close>; \<open>out\<close> and \<open>err\<close> are
  its decoded output streams, \<open>None\<close> where \<open>decode()\<close> raises.
\<close>

record env =
  serial :: "string option"
  time_read :: rat
  time_write :: rat
  local_hostname :: string
  tmp_create :: "string option"
  encodable :: "char \<Rightarrow> bool"
  sender :: sender_behaviour

text \<open>
  \<open>serial\<close>: the decoded reply line, \<open>None\<close> when opening, writing to or reading the port
  raises. \<open>time_read\<close> and \<open>time_write\<close>: what \<open>time.time()\<close> returns inside
  \<open>read_from_cache\<close> and \<open>write_to_cache\<close>. \<open>tmp_create\<close>: the path of the file that
  \<open>NamedTemporaryFile\<close> creates, \<open>None\<close> when it raises. \<open>encodable\<close>: the characters the
  text encoding of the temporary file can encode.
\<close>

section \<open>The cache store\<close>

definition read_from_cache :: "rat \<Rightarrow> world \<Rightarrow> pyval" where
  "read_from_cache now w =
     (case cache_file w of
        None \<Rightarrow> PNone
      | Some content \<Rightarrow>
          if \<not> cache_readable w then PNone
          else (case content of
                  Malformed \<Rightarrow> PNone
                | Doc data \<Rightarrow>
                    (case py_subscript data ''timestamp'' of
                       Inl e \<Rightarrow> PNone
                     | Inr ts \<Rightarrow>
                         (case float_minus (Finite now) ts of
                            Inl e \<Rightarrow> PNone
                          | Inr age \<Rightarrow>
                              if flt age (Finite CACHE_TTL)
                              then (case py_subscript data ''values'' of
                                      Inl e \<Rightarrow> PNone
                                    | Inr v \<Rightarrow> v)
                              else PNone))))"

definition write_to_cache :: "pyval \<Rightarrow> rat \<Rightarrow> world \<Rightarrow> world" where
  "write_to_cache values now w =
     (if cache_writable w
      then w\<lparr>cache_file :=
               Some (Doc (PDict [(''timestamp'', PFloat (Finite now)), (''values'', values)]))\<rparr>
      else w)"

section \<open>The device query\<close>

definition query_result :: "env \<Rightarrow> pyval" where
  "query_result e =
     (case serial e of
        None \<Rightarrow> PNone
      | Some line \<Rightarrow>
          (case parse_ups_response (py_strip_ws line) of
             None \<Rightarrow> PNone
           | Some snap \<Rightarrow> PDict snap))"

definition query_ups :: "env \<Rightarrow> world \<Rightarrow> pyval \<times> world" where
  "query_ups e w = (query_result e, w\<lparr>queries := Suc (queries w)\<rparr>)"

definition get_ups_data :: "env \<Rightarrow> world \<Rightarrow> pyval \<times> world" where
  "get_ups_data e w =
     (let cached = read_from_cache (time_read e) w in
      if py_truthy cached then (cached, w)
      else
        let (fresh, w1) = query_ups e w in
        if py_truthy fresh then (fresh, write_to_cache fresh (time_write e) w1)
        else (PNone, w1))"

section \<open>The metrics forwarder\<close>

datatype printed =
    Line string
  | Shown pyval
  | ErrorSending pyerror

text \<open>
  What a \<open>print\<close> call writes: a literal or decoded text, the text of a value, or the
  message \<open>"Error sending to Zabbix: ..."\<close> for an exception.
\<close>

text \<open>\<open>isinstance(value, (int, float, str))\<close>; a bool is an int.\<close>

fun is_scalar :: "pyval \<Rightarrow> bool" where
  "is_scalar (PInt _) = True"
| "is_scalar (PFloat _) = True"
| "is_scalar (PStr _) = True"
| "is_scalar (PBool _) = True"
| "is_scalar _ = False"

text \<open>The characters of a line that come from the data: hostname, key and a string value.\<close>

definition line_text :: "zline \<Rightarrow> string" where
  "line_text l =
     (case l of (hostname, key, value) \<Rightarrow>
        hostname @ '' '' @ key @ '' '' @ (case value of PStr t \<Rightarrow> t | _ \<Rightarrow> []))"

text \<open>
  The loop over \<open>data.items()\<close>: the lines written so far, and the exception of the first
  \<open>temp_file.write\<close> that raises, if any.
\<close>

fun write_lines :: "(char \<Rightarrow> bool) \<Rightarrow> string \<Rightarrow> (string \<times> pyval) list \<Rightarrow> zline list \<times> pyerror option" where
  "write_lines enc hostname [] = ([], None)"
| "write_lines enc hostname ((key, value) # rest) =
     (if is_scalar value
      then (if list_all enc (line_text (hostname, key, value))
            then (case write_lines enc hostname rest of
                    (ls, err) \<Rightarrow> ((hostname, key, value) # ls, err))
            else ([], Some UnicodeEncodeError))
      else write_lines enc hostname rest)"

text \<open>
  The body of the \<open>try\<close> statement: what it prints, the exception it raises (if any),
  the binding of \<open>temp_file_path\<close> when it ends (\<open>None\<close>: never assigned), and the world.
\<close>

definition run_sender :: "sender_behaviour \<Rightarrow> printed list \<times> pyerror option" where
  "run_sender b =
     (case b of
        SenderRaises e \<Rightarrow> ([], Some e)
      | SenderExits returncode out err \<Rightarrow>
          (case out of
             None \<Rightarrow> ([], Some UnicodeDecodeError)
           | Some text \<Rightarrow>
               if returncode \<noteq> 0
               then (case err of
                       None \<Rightarrow> ([Line text], Some UnicodeDecodeError)
                     | Some t \<Rightarrow> ([Line text, Line t], None))
               else ([Line text], None)))"

definition try_body :: "pyval \<Rightarrow> string \<Rightarrow> env \<Rightarrow> world
    \<Rightarrow> printed list \<times> pyerror option \<times> string option \<times> world" where
  "try_body data hostname e w =
     (case tmp_create e of
        None \<Rightarrow> ([], Some OSError, None, w)
      | Some path \<Rightarrow>
          let w1 = w\<lparr>tmp_dir := (tmp_dir w)(path \<mapsto> [])\<rparr> in
          (case py_items data of
             Inl err \<Rightarrow> ([], Some err, None, w1)
           | Inr kvs \<Rightarrow>
               (case write_lines (encodable e) hostname kvs of
                  (ls, Some err) \<Rightarrow> ([], Some err, None, w1\<lparr>tmp_dir := (tmp_dir w1)(path \<mapsto> ls)\<rparr>)
                | (ls, None) \<Rightarrow>
                    let w2 = w1\<lparr>tmp_dir := (tmp_dir w1)(path \<mapsto> ls)\<rparr> in
                    (case run_sender (sender e) of
                       (out, err) \<Rightarrow> (out, err, Some path, w2)))))"

record send_result =
  printed_out :: "printed list"
  raised :: "pyerror option"
  world_after :: world

text \<open>
  \<open>except Exception as e\<close> prints the message and ends the exception; the \<open>finally\<close> block
  then reads \<open>temp_file_path\<close>, which raises \<open>UnboundLocalError\<close> when it was never assigned.
\<close>

definition send_all_to_zabbix :: "pyval \<Rightarrow> string option \<Rightarrow> string \<Rightarrow> env \<Rightarrow> world \<Rightarrow> send_result" where
  "send_all_to_zabbix data hostname zabbix_server e w =
     (let (hostname1, out0) =
            (case hostname of
               None \<Rightarrow> (local_hostname e, [Line ''Hostname Incorrect''])
             | Some h \<Rightarrow> if h = [] then (local_hostname e, [Line ''Hostname Incorrect''])
                         else (h, []))
      in case try_body data hostname1 e w of
           (out1, err, temp_file_path, w1) \<Rightarrow>
             let out2 = (case err of None \<Rightarrow> [] | Some x \<Rightarrow> [ErrorSending x]) in
             (case temp_file_path of
                None \<Rightarrow>
                  \<lparr>printed_out = out0 @ out1 @ out2, raised = Some UnboundLocalError,
                   world_after = w1\<rparr>
              | Some path \<Rightarrow>
                  \<lparr>printed_out = out0 @ out1 @ out2, raised = None,
                   world_after =
                     (if tmp_dir w1 path \<noteq> None then w1\<lparr>tmp_dir := (tmp_dir w1)(path := None)\<rparr>
                      else w1)\<rparr>))"

section \<open>The command dispatcher\<close>

datatype exit_status = Exit int | Traceback pyerror

record run =
  stdout :: "printed list"
  status :: exit_status
  final :: world

definition main :: "string list \<Rightarrow> env \<Rightarrow> world \<Rightarrow> run" where
  "main argv e w =
     (if length argv \<noteq> 2
      then \<lparr>stdout = [Line ''Usage: ups_cache.py <key>''], status = Exit 1, final = w\<rparr>
      else
        let key = argv ! 1 in
        if key = ''update_cache'' then
          (let (fresh, w1) = query_ups e w in
           if py_truthy fresh
           then \<lparr>stdout = [Line key, Line ''OK''], status = Exit 0,
                 final = write_to_cache fresh (time_write e) w1\<rparr>
           else \<lparr>stdout = [Line key, Line ''FAILED''], status = Exit 0, final = w1\<rparr>)
        else if key = ''send_to_zabbix'' then
          (let (data, w1) = get_ups_data e w in
           if py_truthy data
           then (let r = send_all_to_zabbix data (Some ZABBIX_HOSTNAME) ZABBIX_SERVER e w1 in
                 \<lparr>stdout = Line key # printed_out r,
                  status = (case raised r of None \<Rightarrow> Exit 0 | Some x \<Rightarrow> Traceback x),
                  final = world_after r\<rparr>)
           else \<lparr>stdout = [Line key, Line ''No UPS data to send.''], status = Exit 0, final = w1\<rparr>)
        else
          (let (data, w1) = get_ups_data e w in
           if \<not> py_truthy data
           then \<lparr>stdout = [Line key, Line ''Error getting Data''], status = Exit 0, final = w1\<rparr>
           else (case py_contains data key of
                   Inl x \<Rightarrow> \<lparr>stdout = [Line key], status = Traceback x, final = w1\<rparr>
                 | Inr False \<Rightarrow>
                     \<lparr>stdout = [Line key, Line ''Error getting Data''], status = Exit 0, final = w1\<rparr>
                 | Inr True \<Rightarrow>
                     (case py_subscript data key of
                        Inl x \<Rightarrow> \<lparr>stdout = [Line key], status = Traceback x, final = w1\<rparr>
                      | Inr v \<Rightarrow> \<lparr>stdout = [Line key, Shown v], status = Exit 0, final = w1\<rparr>))))"

section \<open>Notions of the specification\<close>

text \<open>The tokens of a reply, as \<open>parse_ups_response\<close> computes them.\<close>

definition tokens :: "string \<Rightarrow> string list" where
  "tokens response = py_split (py_strip strip_chars response)"

definition field_parses :: "nat \<Rightarrow> string \<Rightarrow> bool" where
  "field_parses i tok = (if i = 3 then py_int tok \<noteq> None else py_float tok \<noteq> None)"

definition spec_clamp :: "rat \<Rightarrow> rat \<Rightarrow> rat \<Rightarrow> rat" where
  "spec_clamp x lo hi = (if x < lo then lo else if hi < x then hi else x)"

definition spec_charge :: "rat \<Rightarrow> int" where
  "spec_charge aggregate_voltage =
     \<lfloor>spec_clamp (((aggregate_voltage - 16640 / 100) / (208 - 16640 / 100)) * 100) 0 100\<rfloor>"



definition base_keys :: "string list" where
  "base_keys = [''input_voltage'', ''input_fault_voltage'', ''output_voltage'',
     ''output_current_percent'', ''input_frequency'', ''battery_voltage'',
     ''battery_voltage_all'', ''temperature'', ''battery_charge'']"


definition example_reply :: string where
  "example_reply = ''(208.4 140.0 208.4 034 59.9 2.05 35.0 10000001''"

definition low_battery_reply :: string where
  "low_battery_reply = ''(208.4 140.0 208.4 034 59.9 1.70 35.0 10000001''"

definition short_status_reply :: string where
  "short_status_reply = ''(208.4 140.0 208.4 034 59.9 2.05 35.0 0011000''"

definition valid_status :: "string \<Rightarrow> bool" where
  "valid_status bits = (length bits = 8 \<and> set bits \<subseteq> {CHR ''0'', CHR ''1''})"

text \<open>The charge computed from a per-cell battery voltage.\<close>

fun charge_of :: "pyfloat \<Rightarrow> int" where
  "charge_of (Finite v) = spec_charge (v * SERIES_FACTOR)"
| "charge_of PInf = 100"
| "charge_of NInf = 0"
| "charge_of NaN = 100"


subsection \<open>Cache entries\<close>








definition aged_cache :: world where
  "aged_cache =
     \<lparr>cache_file = Some (Doc (PDict [(''timestamp'', PFloat (Finite 1000)),
                                       (''values'', PDict [(''battery_charge'', PInt 77)])])),
      cache_readable = True, cache_writable = True, tmp_dir = (\<lambda>p. None), queries = 0\<rparr>"


subsection \<open>Sample environments\<close>

definition ascii_env :: env where
  "ascii_env =
     \<lparr>serial = Some example_reply, time_read = 1000, time_write = 1003,
      local_hostname = ''ups-host'', tmp_create = Some ''/tmp/tmpq1w2e3'',
      encodable = (\<lambda>c. (of_char c :: nat) < 128),
      sender = SenderExits 0 (Some ''processed: 1'') (Some [])\<rparr>"

definition silent_env :: env where
  "silent_env = ascii_env\<lparr>serial := None\<rparr>"

definition empty_world :: world where
  "empty_world =
     \<lparr>cache_file = None, cache_readable = True, cache_writable = True,
      tmp_dir = (\<lambda>p. None), queries = 0\<rparr>"


definition unencodable_snapshot :: pyval where
  "unencodable_snapshot = PDict [(''battery_charge'', PInt 77), (''note'', PStr [CHR 0xE9])]"


section \<open>Properties of the parser\<close>

lemma ex_less_7: "(\<exists>i<7. P (i::nat)) \<longleftrightarrow> P 0 \<or> P 1 \<or> P 2 \<or> P 3 \<or> P 4 \<or> P 5 \<or> P 6"
proof -
  have "{i::nat. i < 7} = {0, 1, 2, 3, 4, 5, 6}" by auto
  then have "(\<exists>i<7. P i) \<longleftrightarrow> (\<exists>i\<in>{0, 1, 2, 3, 4, 5, 6::nat}. P i)" by blast
  then show ?thesis by simp
qed

lemma span_value: "fsub BATTERY_HIGH BATTERY_LOW = Finite (208 - 16640 / 100)"
  by (simp add: fsub_def BATTERY_HIGH_def BATTERY_LOW_def)

lemma clamp_to_int:
  "py_int_num (py_max (NI 0) (py_min (NI 100) (NF (Finite q)))) = Inr \<lfloor>spec_clamp q 0 100\<rfloor>"
proof (cases "q < 0")
  case True
  then show ?thesis
    by (simp add: py_max_def py_min_def num_lt_def spec_clamp_def)
next
  case nonneg: False
  show ?thesis
  proof (cases "100 < q")
    case True
    with nonneg show ?thesis
      by (simp add: py_max_def py_min_def num_lt_def spec_clamp_def)
  next
    case False
    with nonneg show ?thesis
      by (simp add: py_max_def py_min_def num_lt_def spec_clamp_def trunc_rat_def)
  qed
qed

lemma battery_percent_Finite: "battery_percent (Finite a) = Inr (spec_charge a)"
proof -
  have d: "fdiv (fsub (Finite a) BATTERY_LOW) (fsub BATTERY_HIGH BATTERY_LOW)
             = Inr (Finite ((a - 16640 / 100) / (208 - 16640 / 100)))"
    unfolding span_value by (simp add: fsub_def BATTERY_LOW_def)
  show ?thesis
    unfolding battery_percent_def d spec_charge_def
    by (simp only: sum.case fmul.simps clamp_to_int)
qed

lemma battery_percent_special:
  "battery_percent PInf = Inr 100" "battery_percent NInf = Inr 0" "battery_percent NaN = Inr 100"
  unfolding battery_percent_def span_value
  by (simp_all add: fsub_def BATTERY_LOW_def py_max_def py_min_def num_lt_def finf_def)

lemma battery_percent_total: "\<exists>n. battery_percent x = Inr n"
  by (cases x) (simp_all add: battery_percent_Finite battery_percent_special)

lemma battery_percent_not_Inl: "battery_percent x \<noteq> Inl e"
  using battery_percent_total [of x] by auto

lemma parse_None_iff:
  "parse_ups_response r = None \<longleftrightarrow>
     (\<not> startswith_paren r \<or> length (tokens r) \<noteq> 8 \<or> (\<exists>i<7. \<not> field_parses i (tokens r ! i)))"
  unfolding ex_less_7 parse_ups_response_def tokens_def [symmetric] field_parses_def Let_def
  by (auto simp: battery_percent_not_Inl split: option.splits sum.splits)

lemma all_less_7: "(\<forall>i<7. P (i::nat)) \<longleftrightarrow> P 0 \<and> P 1 \<and> P 2 \<and> P 3 \<and> P 4 \<and> P 5 \<and> P 6"
  using ex_less_7 [of "\<lambda>i. \<not> P i"] by blast

lemma parse_Some_D:
  assumes "parse_ups_response r = Some s"
  shows "\<exists>iv fv ov oc fr bv t c.
           py_float (tokens r ! 5) = Some bv \<and>
           battery_percent (fmul bv (Finite SERIES_FACTOR)) = Inr c \<and>
           s = [(''input_voltage'', PFloat iv),
                (''input_fault_voltage'', PFloat fv),
                (''output_voltage'', PFloat ov),
                (''output_current_percent'', PInt oc),
                (''input_frequency'', PFloat fr),
                (''battery_voltage'', PFloat bv),
                (''battery_voltage_all'', PFloat (py_round2 (fmul bv (Finite SERIES_FACTOR)))),
                (''temperature'', PFloat t),
                (''battery_charge'', PInt c)] @ parse_status_bits (tokens r ! 7)"
  using assms
  unfolding parse_ups_response_def tokens_def [symmetric] Let_def
  by (auto split: if_splits option.splits sum.splits)

lemma parse_Some_lookup:
  assumes "parse_ups_response r = Some s"
  shows "\<exists>bv c.
           py_float (tokens r ! 5) = Some bv \<and>
           battery_percent (fmul bv (Finite SERIES_FACTOR)) = Inr c \<and>
           map_of s ''battery_voltage'' = Some (PFloat bv) \<and>
           map_of s ''battery_voltage_all'' = Some (PFloat (py_round2 (fmul bv (Finite SERIES_FACTOR)))) \<and>
           map_of s ''battery_charge'' = Some (PInt c)"
proof -
  from parse_Some_D [OF assms] obtain iv fv ov oc fr bv t c where
    a: "py_float (tokens r ! 5) = Some bv"
    and b: "battery_percent (fmul bv (Finite SERIES_FACTOR)) = Inr c"
    and s: "s = [(''input_voltage'', PFloat iv),
                (''input_fault_voltage'', PFloat fv),
                (''output_voltage'', PFloat ov),
                (''output_current_percent'', PInt oc),
                (''input_frequency'', PFloat fr),
                (''battery_voltage'', PFloat bv),
                (''battery_voltage_all'', PFloat (py_round2 (fmul bv (Finite SERIES_FACTOR)))),
                (''temperature'', PFloat t),
                (''battery_charge'', PInt c)] @ parse_status_bits (tokens r ! 7)"
    by blast
  show ?thesis
    using a b unfolding s by simp
qed

lemma spec_clamp_mono: "x \<le> y \<Longrightarrow> spec_clamp x 0 100 \<le> spec_clamp y 0 100"
  by (simp add: spec_clamp_def)

lemma spec_charge_mono: "a \<le> b \<Longrightarrow> spec_charge a \<le> spec_charge b"
proof -
  assume ab: "a \<le> b"
  have "(a - 16640 / 100) / (208 - 16640 / 100) * 100 \<le> (b - 16640 / 100) / (208 - 16640 / 100) * 100"
    using ab by (simp add: divide_right_mono)
  then show ?thesis
    unfolding spec_charge_def by (intro floor_mono spec_clamp_mono)
qed

lemma spec_charge_low: "a \<le> 16640 / 100 \<Longrightarrow> spec_charge a = 0"
proof -
  assume "a \<le> 16640 / 100"
  then have "(a - 16640 / 100) / (208 - 16640 / 100) * 100 \<le> 0"
    by (simp add: divide_le_0_iff)
  then have "spec_clamp ((a - 16640 / 100) / (208 - 16640 / 100) * 100) 0 100 = 0"
    by (simp add: spec_clamp_def)
  then show ?thesis by (simp add: spec_charge_def)
qed

lemma spec_charge_high: "208 \<le> a \<Longrightarrow> spec_charge a = 100"
proof -
  assume "208 \<le> a"
  then have "1 \<le> (a - 16640 / 100) / (208 - 16640 / 100)"
    by (simp add: le_divide_eq)
  then have "100 \<le> (a - 16640 / 100) / (208 - 16640 / 100) * 100"
    by simp
  then have "spec_clamp ((a - 16640 / 100) / (208 - 16640 / 100) * 100) 0 100 = 100"
    by (simp add: spec_clamp_def)
  then show ?thesis by (simp add: spec_charge_def)
qed

lemma spec_charge_bounds: "0 \<le> spec_charge a \<and> spec_charge a \<le> 100"
proof -
  let ?c = "spec_clamp ((a - 16640 / 100) / (208 - 16640 / 100) * 100) 0 100"
  have "0 \<le> ?c" "?c \<le> 100" by (simp_all add: spec_clamp_def)
  then have "0 \<le> \<lfloor>?c\<rfloor>" "\<lfloor>?c\<rfloor> \<le> 100"
    by (simp_all add: floor_le_iff)
  then show ?thesis by (simp add: spec_charge_def)
qed

lemma battery_percent_charge_of:
  "battery_percent (fmul v (Finite SERIES_FACTOR)) = Inr (charge_of v)"
  by (cases v) (simp_all add: battery_percent_Finite battery_percent_special SERIES_FACTOR_def finf_def)

lemma charge_of_bounds: "0 \<le> charge_of v \<and> charge_of v \<le> 100"
  by (cases v) (simp_all add: spec_charge_bounds)

lemma SERIES_FACTOR_pos: "0 < SERIES_FACTOR"
  by (simp add: SERIES_FACTOR_def)

lemma charge_of_mono: "fle v1 v2 \<Longrightarrow> charge_of v1 \<le> charge_of v2"
proof (cases v1; cases v2)
  fix a b assume "fle v1 v2" "v1 = Finite a" "v2 = Finite b"
  then have "a * SERIES_FACTOR \<le> b * SERIES_FACTOR"
    using SERIES_FACTOR_pos by (auto simp: fle_def)
  then show "charge_of v1 \<le> charge_of v2"
    using \<open>v1 = Finite a\<close> \<open>v2 = Finite b\<close> by (simp add: spec_charge_mono)
qed (auto simp: fle_def spec_charge_bounds)

lemma charge_of_low: "fle v (Finite ((16640 / 100) / SERIES_FACTOR)) \<Longrightarrow> charge_of v = 0"
proof (cases v)
  case (Finite a)
  assume "fle v (Finite ((16640 / 100) / SERIES_FACTOR))"
  then have "a \<le> (16640 / 100) / SERIES_FACTOR"
    using Finite by (auto simp: fle_def)
  then have "a * SERIES_FACTOR \<le> 16640 / 100"
    using SERIES_FACTOR_pos by (simp add: pos_le_divide_eq)
  then show ?thesis using Finite by (simp add: spec_charge_low)
qed (auto simp: fle_def)

lemma charge_of_high: "fle (Finite (208 / SERIES_FACTOR)) v \<Longrightarrow> charge_of v = 100"
proof (cases v)
  case (Finite a)
  assume "fle (Finite (208 / SERIES_FACTOR)) v"
  then have "208 / SERIES_FACTOR \<le> a"
    using Finite by (auto simp: fle_def)
  then have "208 \<le> a * SERIES_FACTOR"
    using SERIES_FACTOR_pos by (simp add: pos_divide_le_eq)
  then show ?thesis using Finite by (simp add: spec_charge_high)
qed (auto simp: fle_def)


lemma length_8_D:
  "length xs = 8 \<Longrightarrow> \<exists>a b c d e f g h. xs = [a, b, c, d, e, f, g, h]"
  by (auto simp: eval_nat_numeral length_Suc_conv)

lemma valid_status_iff:
  "valid_status bits \<longleftrightarrow> length bits = 8 \<and> list_all (\<lambda>c. c \<in> set ''01'') bits"
  by (auto simp: valid_status_def list_all_iff)

lemma parse_status_bits_valid:
  assumes "valid_status bits"
  shows "parse_status_bits bits =
     [(''utility_fail'', PInt (bit_of_char (bits ! 0))),
      (''battery_low'', PInt (bit_of_char (bits ! 1))),
      (''boost_buck_active'', PInt (bit_of_char (bits ! 2))),
      (''ups_failed'', PInt (bit_of_char (bits ! 3))),
      (''ups_type_standby'', PInt (bit_of_char (bits ! 4))),
      (''test_in_progress'', PInt (bit_of_char (bits ! 5))),
      (''shutdown_active'', PInt (bit_of_char (bits ! 6))),
      (''beeper_on'', PInt (bit_of_char (bits ! 7)))]"
  using assms unfolding valid_status_iff
  by (simp add: parse_status_bits_def STATUS_FLAGS_def)

lemma parse_status_bits_invalid: "\<not> valid_status bits \<Longrightarrow> parse_status_bits bits = []"
  unfolding valid_status_iff by (simp add: parse_status_bits_def)

lemma flag_cases:
  assumes "(name, pos) \<in> set STATUS_FLAGS"
  shows "(name, pos) \<in> {(''utility_fail'', 7), (''battery_low'', 6), (''boost_buck_active'', 5),
     (''ups_failed'', 4), (''ups_type_standby'', 3), (''test_in_progress'', 2),
     (''shutdown_active'', 1), (''beeper_on'', 0)}"
  using assms unfolding STATUS_FLAGS_def by simp

lemma rev8_nth:
  "rev [a, b, c, d, e, f, g, h] ! 7 = a" "rev [a, b, c, d, e, f, g, h] ! 6 = b"
  "rev [a, b, c, d, e, f, g, h] ! 5 = c" "rev [a, b, c, d, e, f, g, h] ! 4 = d"
  "rev [a, b, c, d, e, f, g, h] ! 3 = e" "rev [a, b, c, d, e, f, g, h] ! 2 = f"
  "rev [a, b, c, d, e, f, g, h] ! 1 = g" "rev [a, b, c, d, e, f, g, h] ! 0 = h"
  by simp_all

lemma flag_lookup:
  assumes "valid_status bits" "(name, pos) \<in> set STATUS_FLAGS"
  shows "map_of (parse_status_bits bits) name
           = Some (PInt (if rev bits ! pos = CHR ''1'' then 1 else 0))"
proof -
  from assms(1) obtain a b c d e f g h where bits: "bits = [a, b, c, d, e, f, g, h]"
    using length_8_D unfolding valid_status_def by blast
  have v: "valid_status [a, b, c, d, e, f, g, h]" using assms(1) bits by simp
  show ?thesis
    using flag_cases [OF assms(2)]
    unfolding bits parse_status_bits_valid [OF v]
    by (elim insertE emptyE; simp add: bit_of_char_def)
qed

lemma flag_not_base:
  assumes "(name, pos) \<in> set STATUS_FLAGS"
  shows "name \<notin> set base_keys"
  using flag_cases [OF assms] unfolding base_keys_def
  by (elim insertE emptyE; simp)

lemma parse_Some_shape:
  assumes "parse_ups_response r = Some s"
  shows "\<exists>b. map fst b = base_keys \<and> s = b @ parse_status_bits (tokens r ! 7)"
proof -
  from parse_Some_D [OF assms] obtain iv fv ov oc fr bv t c where
    s: "s = [(''input_voltage'', PFloat iv),
                (''input_fault_voltage'', PFloat fv),
                (''output_voltage'', PFloat ov),
                (''output_current_percent'', PInt oc),
                (''input_frequency'', PFloat fr),
                (''battery_voltage'', PFloat bv),
                (''battery_voltage_all'', PFloat (py_round2 (fmul bv (Finite SERIES_FACTOR)))),
                (''temperature'', PFloat t),
                (''battery_charge'', PInt c)] @ parse_status_bits (tokens r ! 7)"
    by blast
  show ?thesis
    by (rule exI [of _ "take 9 s"]) (simp add: s base_keys_def)
qed

lemma map_of_base_None:
  assumes "map fst b = base_keys" "name \<notin> set base_keys"
  shows "map_of b name = None"
  using assms by (metis map_of_eq_None_iff set_map)

lemma snapshot_flag_lookup:
  assumes "parse_ups_response r = Some s" "(name, pos) \<in> set STATUS_FLAGS"
  shows "map_of s name = map_of (parse_status_bits (tokens r ! 7)) name"
proof -
  from parse_Some_shape [OF assms(1)] obtain b where
    b: "map fst b = base_keys" and s: "s = b @ parse_status_bits (tokens r ! 7)" by blast
  have "map_of b name = None"
    using map_of_base_None [OF b flag_not_base [OF assms(2)]] .
  then show ?thesis unfolding s by (simp add: map_add_def)
qed

lemma parse_Some_if_fields:
  assumes "startswith_paren r" "length (tokens r) = 8" "\<forall>i<7. field_parses i (tokens r ! i)"
  shows "\<exists>s. parse_ups_response r = Some s"
proof -
  have "parse_ups_response r \<noteq> None"
    using assms unfolding parse_None_iff by blast
  then show ?thesis by blast
qed

lemma example_reply_fields:
  "startswith_paren example_reply" "length (tokens example_reply) = 8"
  "\<forall>i<7. field_parses i (tokens example_reply ! i)"
  unfolding all_less_7 by code_simp+

lemma short_status_reply_fields:
  "startswith_paren short_status_reply" "length (tokens short_status_reply) = 8"
  "\<forall>i<7. field_parses i (tokens short_status_reply ! i)"
  "\<not> valid_status (tokens short_status_reply ! 7)"
  unfolding all_less_7 by code_simp+

section \<open>Claims about the parser\<close>



text \<open>
  Claim C2. For a status string of 8 characters \<open>0\<close>/\<open>1\<close>, every flag of \<open>STATUS_FLAGS\<close> is
  the character at its bit position counted from the end (bit 0 is the last character, bit 7
  the first), both in \<open>parse_status_bits\<close> and in the returned snapshot; \<open>"10000001"\<close> gives
  \<open>utility_fail = 1\<close>, \<open>beeper_on = 1\<close> and 0 for the six others. For any other status token
  the flag set is empty, and a reply whose first seven tokens parse is still returned as a
  snapshot, without any of the 8 flag keys.
\<close>

theorem status_flags_indexed_from_end:
  "(valid_status bits \<longrightarrow>
      (\<forall>name pos. (name, pos) \<in> set STATUS_FLAGS \<longrightarrow>
         map_of (parse_status_bits bits) name
           = Some (PInt (if rev bits ! pos = CHR ''1'' then 1 else 0)))) \<and>
   parse_status_bits ''10000001'' =
     [(''utility_fail'', PInt 1), (''battery_low'', PInt 0), (''boost_buck_active'', PInt 0),
      (''ups_failed'', PInt 0), (''ups_type_standby'', PInt 0), (''test_in_progress'', PInt 0),
      (''shutdown_active'', PInt 0), (''beeper_on'', PInt 1)] \<and>
   (\<not> valid_status bits \<longrightarrow> parse_status_bits bits = []) \<and>
   (parse_ups_response r = Some s \<and> valid_status (tokens r ! 7) \<longrightarrow>
      (\<forall>name pos. (name, pos) \<in> set STATUS_FLAGS \<longrightarrow>
         map_of s name = Some (PInt (if rev (tokens r ! 7) ! pos = CHR ''1'' then 1 else 0)))) \<and>
   (startswith_paren r \<and> length (tokens r) = 8 \<and> (\<forall>i<7. field_parses i (tokens r ! i))
      \<and> \<not> valid_status (tokens r ! 7) \<longrightarrow>
      (\<exists>s. parse_ups_response r = Some s \<and>
           (\<forall>name pos. (name, pos) \<in> set STATUS_FLAGS \<longrightarrow> map_of s name = None)))"
proof (intro conjI impI allI)
  fix name pos
  assume "valid_status bits" "(name, pos) \<in> set STATUS_FLAGS"
  then show "map_of (parse_status_bits bits) name
           = Some (PInt (if rev bits ! pos = CHR ''1'' then 1 else 0))"
    by (rule flag_lookup)
next
  have v: "valid_status ''10000001''" by (simp add: valid_status_def)
  show "parse_status_bits ''10000001'' =
     [(''utility_fail'', PInt 1), (''battery_low'', PInt 0), (''boost_buck_active'', PInt 0),
      (''ups_failed'', PInt 0), (''ups_type_standby'', PInt 0), (''test_in_progress'', PInt 0),
      (''shutdown_active'', PInt 0), (''beeper_on'', PInt 1)]"
    unfolding parse_status_bits_valid [OF v] by (simp add: bit_of_char_def)
next
  assume "\<not> valid_status bits"
  then show "parse_status_bits bits = []" by (rule parse_status_bits_invalid)
next
  fix name pos
  assume a: "parse_ups_response r = Some s \<and> valid_status (tokens r ! 7)"
    and f: "(name, pos) \<in> set STATUS_FLAGS"
  show "map_of s name = Some (PInt (if rev (tokens r ! 7) ! pos = CHR ''1'' then 1 else 0))"
    using snapshot_flag_lookup [of r s name pos] flag_lookup [of "tokens r ! 7" name pos] a f
    by simp
next
  assume h: "startswith_paren r \<and> length (tokens r) = 8 \<and> (\<forall>i<7. field_parses i (tokens r ! i))
      \<and> \<not> valid_status (tokens r ! 7)"
  then obtain s where s: "parse_ups_response r = Some s"
    using parse_Some_if_fields by blast
  have "map_of s name = None" if "(name, pos) \<in> set STATUS_FLAGS" for name pos
    using snapshot_flag_lookup [OF s that] parse_status_bits_invalid [of "tokens r ! 7"] h
    by simp
  with s show "\<exists>s. parse_ups_response r = Some s \<and>
           (\<forall>name pos. (name, pos) \<in> set STATUS_FLAGS \<longrightarrow> map_of s name = None)"
    by blast
qed

lemma example_reply_status:
  "tokens example_reply ! 7 = ''10000001''" "valid_status ''10000001''"
  by code_simp+

theorem status_flags_indexed_from_end_witness:
  "(\<exists>s. parse_ups_response example_reply = Some s \<and>
        map_of s ''utility_fail'' = Some (PInt 1) \<and>
        map_of s ''battery_low'' = Some (PInt 0) \<and>
        map_of s ''beeper_on'' = Some (PInt 1)) \<and>
   (\<exists>s. parse_ups_response short_status_reply = Some s \<and>
        map_of s ''utility_fail'' = None \<and> map_of s ''beeper_on'' = None)"
proof -
  obtain s where s: "parse_ups_response example_reply = Some s"
    using parse_Some_if_fields [OF example_reply_fields] by blast
  have m: "(''utility_fail'', 7) \<in> set STATUS_FLAGS" "(''battery_low'', 6) \<in> set STATUS_FLAGS"
    "(''beeper_on'', 0) \<in> set STATUS_FLAGS"
    by (simp_all add: STATUS_FLAGS_def)
  have v: "valid_status (tokens example_reply ! 7)"
    using example_reply_status by simp
  have "\<forall>name pos. (name, pos) \<in> set STATUS_FLAGS \<longrightarrow>
         map_of s name = Some (PInt (if rev ''10000001'' ! pos = CHR ''1'' then 1 else 0))"
    using status_flags_indexed_from_end [of "''10000001''" example_reply s] s v
    unfolding example_reply_status(1) by blast
  with m have a: "map_of s ''utility_fail'' = Some (PInt 1) \<and>
        map_of s ''battery_low'' = Some (PInt 0) \<and>
        map_of s ''beeper_on'' = Some (PInt 1)"
    by fastforce
  obtain t where t: "parse_ups_response short_status_reply = Some t"
    "\<forall>name pos. (name, pos) \<in> set STATUS_FLAGS \<longrightarrow> map_of t name = None"
    using status_flags_indexed_from_end [of "''10000001''" short_status_reply s]
      short_status_reply_fields by blast
  with m have b: "map_of t ''utility_fail'' = None \<and> map_of t ''beeper_on'' = None"
    by blast
  from s a t(1) b show ?thesis by blast
qed


lemma example_reply_parsed:
  "parse_ups_response example_reply =
     Some [(''input_voltage'', PFloat (Finite (2084 / 10))),
           (''input_fault_voltage'', PFloat (Finite 140)),
           (''output_voltage'', PFloat (Finite (2084 / 10))),
           (''output_current_percent'', PInt 34),
           (''input_frequency'', PFloat (Finite (599 / 10))),
           (''battery_voltage'', PFloat (Finite (205 / 100))),
           (''battery_voltage_all'', PFloat (Finite (19865 / 100))),
           (''temperature'', PFloat (Finite 35)),
           (''battery_charge'', PInt 77),
           (''utility_fail'', PInt 1), (''battery_low'', PInt 0),
           (''boost_buck_active'', PInt 0), (''ups_failed'', PInt 0),
           (''ups_type_standby'', PInt 0), (''test_in_progress'', PInt 0),
           (''shutdown_active'', PInt 0), (''beeper_on'', PInt 1)]"
  by code_simp


text \<open>
  Claim C4. For two parsed replies with battery voltages \<open>v1\<close> and \<open>v2\<close>, \<open>v1 \<le> v2\<close> implies
  \<open>charge(v1) \<le> charge(v2)\<close>; the charge of every parsed reply lies in [0, 100]; a voltage
  at or below \<open>166.40 / 96.90265487\<close> gives 0 and one at or above \<open>208.00 / 96.90265487\<close>
  gives 100. Voltages are compared as floats (\<open>fle\<close>), so the statement covers the
  infinities; nothing is below or above \<open>nan\<close>.
\<close>

theorem battery_charge_monotone_clamped:
  assumes "parse_ups_response r1 = Some s1" "parse_ups_response r2 = Some s2"
    and "py_float (tokens r1 ! 5) = Some v1" "py_float (tokens r2 ! 5) = Some v2"
  shows "\<exists>c1 c2. map_of s1 ''battery_charge'' = Some (PInt c1) \<and>
           map_of s2 ''battery_charge'' = Some (PInt c2) \<and>
           (fle v1 v2 \<longrightarrow> c1 \<le> c2) \<and>
           0 \<le> c1 \<and> c1 \<le> 100 \<and>
           (fle v1 (Finite ((16640 / 100) / (9690265487 / 100000000))) \<longrightarrow> c1 = 0) \<and>
           (fle (Finite (208 / (9690265487 / 100000000))) v1 \<longrightarrow> c1 = 100)"
proof -
  from parse_Some_lookup [OF assms(1)] assms(3)
  have 1: "map_of s1 ''battery_charge'' = Some (PInt (charge_of v1))"
    by (auto simp: battery_percent_charge_of)
  from parse_Some_lookup [OF assms(2)] assms(4)
  have 2: "map_of s2 ''battery_charge'' = Some (PInt (charge_of v2))"
    by (auto simp: battery_percent_charge_of)
  have 3: "fle v1 v2 \<longrightarrow> charge_of v1 \<le> charge_of v2"
    using charge_of_mono by blast
  have 4: "fle v1 (Finite ((16640 / 100) / (9690265487 / 100000000))) \<longrightarrow> charge_of v1 = 0"
    using charge_of_low [of v1] unfolding SERIES_FACTOR_def by blast
  have 5: "fle (Finite (208 / (9690265487 / 100000000))) v1 \<longrightarrow> charge_of v1 = 100"
    using charge_of_high [of v1] unfolding SERIES_FACTOR_def by blast
  from 1 2 3 4 5 charge_of_bounds [of v1] show ?thesis by blast
qed

lemma low_battery_reply_facts:
  "startswith_paren low_battery_reply" "length (tokens low_battery_reply) = 8"
  "\<forall>i<7. field_parses i (tokens low_battery_reply ! i)"
  "py_float (tokens low_battery_reply ! 5) = Some (Finite (170 / 100))"
  unfolding all_less_7 by code_simp+

theorem battery_charge_monotone_clamped_witness:
  "\<exists>s1 s2 c1 c2.
     parse_ups_response low_battery_reply = Some s1 \<and>
     parse_ups_response example_reply = Some s2 \<and>
     map_of s1 ''battery_charge'' = Some (PInt c1) \<and>
     map_of s2 ''battery_charge'' = Some (PInt c2) \<and>
     c1 \<le> c2 \<and> 0 \<le> c1 \<and> c1 \<le> 100 \<and> c1 = 0"
proof -
  obtain s1 where s1: "parse_ups_response low_battery_reply = Some s1"
    using parse_Some_if_fields [OF low_battery_reply_facts(1-3)] by blast
  obtain s2 where s2: "parse_ups_response example_reply = Some s2"
    using parse_Some_if_fields [OF example_reply_fields] by blast
  have f2: "py_float (tokens example_reply ! 5) = Some (Finite (205 / 100))"
    by code_simp
  have le: "fle (Finite (170 / 100)) (Finite (205 / 100))"
    by (simp add: fle_def)
  have lo: "fle (Finite (170 / 100)) (Finite ((16640 / 100) / (9690265487 / 100000000)))"
    by (simp add: fle_def)
  show ?thesis
    using battery_charge_monotone_clamped [OF s1 s2 low_battery_reply_facts(4) f2] s1 s2 le lo
    by blast
qed

text \<open>
  Claim C9, as stated, fails: a reply whose only defect is a status token of 7 characters
  is parsed into a snapshot, not null.
\<close>

theorem short_status_reply_not_null:
  "startswith_paren short_status_reply \<and>
   tokens short_status_reply
     = [''208.4'', ''140.0'', ''208.4'', ''034'', ''59.9'', ''2.05'', ''35.0'', ''0011000''] \<and>
   parse_ups_response short_status_reply \<noteq> None"
  by code_simp

text \<open>
  Claim C9, amended. A reply with a wrong field count, or with a non-numeric token among the
  first seven, yields null; a reply whose only defect is a status token that is not 8
  characters of \<open>0\<close>/\<open>1\<close> yields a snapshot with exactly the nine metric keys and no flag key.
\<close>

theorem malformed_reply_outcomes:
  "(length (tokens r) \<noteq> 8 \<longrightarrow> parse_ups_response r = None) \<and>
   ((\<exists>i<7. \<not> field_parses i (tokens r ! i)) \<longrightarrow> parse_ups_response r = None) \<and>
   (startswith_paren r \<and> length (tokens r) = 8 \<and> (\<forall>i<7. field_parses i (tokens r ! i))
      \<and> \<not> valid_status (tokens r ! 7) \<longrightarrow>
      (\<exists>s. parse_ups_response r = Some s \<and> map fst s = base_keys))"
proof -
  have "\<exists>s. parse_ups_response r = Some s \<and> map fst s = base_keys"
    if h: "startswith_paren r \<and> length (tokens r) = 8 \<and> (\<forall>i<7. field_parses i (tokens r ! i))
      \<and> \<not> valid_status (tokens r ! 7)"
  proof -
    from h obtain s where s: "parse_ups_response r = Some s"
      using parse_Some_if_fields by blast
    from parse_Some_shape [OF s] obtain b where
      "map fst b = base_keys" "s = b @ parse_status_bits (tokens r ! 7)" by blast
    then have "map fst s = base_keys"
      using parse_status_bits_invalid [of "tokens r ! 7"] h by simp
    with s show ?thesis by blast
  qed
  then show ?thesis
    using parse_None_iff [of r] by blast
qed

theorem malformed_reply_outcomes_witness:
  "parse_ups_response ''(208.4 140.0 208.4'' = None \<and>
   parse_ups_response ''(208.4 140.0 208.4 034 59.9 2,05 35.0 10000001'' = None \<and>
   (\<exists>s. parse_ups_response short_status_reply = Some s \<and> map fst s = base_keys)"
proof -
  have b: "length (tokens ''(208.4 140.0 208.4'') \<noteq> 8"
    by code_simp
  have "\<not> field_parses 5 (tokens ''(208.4 140.0 208.4 034 59.9 2,05 35.0 10000001'' ! 5)"
    by code_simp
  then have c: "\<exists>i<7. \<not> field_parses i (tokens ''(208.4 140.0 208.4 034 59.9 2,05 35.0 10000001'' ! i)"
    by (intro exI [of _ 5]) simp
  show ?thesis
    using malformed_reply_outcomes [of "''(208.4 140.0 208.4''"]
      malformed_reply_outcomes [of "''(208.4 140.0 208.4 034 59.9 2,05 35.0 10000001''"]
      malformed_reply_outcomes [of short_status_reply]
      b c short_status_reply_fields
    by blast
qed

section \<open>Properties of the cache store\<close>









section \<open>Claims about the cache store\<close>







section \<open>Claims about the command dispatcher\<close>

lemma query_result_cases:
  "query_result e = PNone \<or> (\<exists>snap. snap \<noteq> [] \<and> query_result e = PDict snap)"
proof (cases "serial e")
  case None
  then show ?thesis by (simp add: query_result_def)
next
  case (Some line)
  show ?thesis
  proof (cases "parse_ups_response (py_strip_ws line)")
    case None
    with Some show ?thesis by (simp add: query_result_def)
  next
    case s: (Some s)
    from parse_Some_shape [OF s] obtain b where
      "map fst b = base_keys" "s = b @ parse_status_bits (tokens (py_strip_ws line) ! 7)"
      by blast
    then have "s \<noteq> []" by (auto simp: base_keys_def)
    with Some s show ?thesis by (simp add: query_result_def)
  qed
qed

lemma query_result_truthy: "py_truthy (query_result e) \<longleftrightarrow> query_result e \<noteq> PNone"
  using query_result_cases [of e] by auto

text \<open>
  Claim C7. The \<open>update_cache\<close> command makes one device query whatever the cache holds
  (the query counter goes up by one, and neither the output nor the query result depends on
  the cache). When the query returns a snapshot, the command calls \<open>write_to_cache\<close> with it
  and prints \<open>OK\<close> after the echoed key; when the query returns null it prints \<open>FAILED\<close>,
  writes nothing and leaves the cache file as it was. It exits with status 0 in both cases.
\<close>

theorem update_cache_command:
  "queries (final (main [prog, ''update_cache''] e w)) = Suc (queries w) \<and>
   (query_result e \<noteq> PNone \<longrightarrow>
      main [prog, ''update_cache''] e w
        = \<lparr>stdout = [Line ''update_cache'', Line ''OK''], status = Exit 0,
           final = write_to_cache (query_result e) (time_write e)
                     (w\<lparr>queries := Suc (queries w)\<rparr>)\<rparr>) \<and>
   (query_result e = PNone \<longrightarrow>
      main [prog, ''update_cache''] e w
        = \<lparr>stdout = [Line ''update_cache'', Line ''FAILED''], status = Exit 0,
           final = w\<lparr>queries := Suc (queries w)\<rparr>\<rparr> \<and>
      cache_file (final (main [prog, ''update_cache''] e w)) = cache_file w)"
  by (simp add: main_def Let_def query_ups_def query_result_truthy write_to_cache_def)

lemma ascii_env_query:
  "query_result ascii_env \<noteq> PNone" "query_result silent_env = PNone"
  by (simp_all add: query_result_def ascii_env_def silent_env_def) code_simp

theorem update_cache_command_witness:
  "stdout (main [''ups_cache.py'', ''update_cache''] ascii_env aged_cache)
     = [Line ''update_cache'', Line ''OK''] \<and>
   cache_file (final (main [''ups_cache.py'', ''update_cache''] ascii_env aged_cache))
     = Some (Doc (PDict [(''timestamp'', PFloat (Finite 1003)),
                         (''values'', query_result ascii_env)])) \<and>
   stdout (main [''ups_cache.py'', ''update_cache''] silent_env aged_cache)
     = [Line ''update_cache'', Line ''FAILED''] \<and>
   cache_file (final (main [''ups_cache.py'', ''update_cache''] silent_env aged_cache))
     = cache_file aged_cache"
proof -
  have w: "cache_writable aged_cache" by (simp add: aged_cache_def)
  have t: "time_write ascii_env = 1003" by (simp add: ascii_env_def)
  show ?thesis
    using update_cache_command [of "''ups_cache.py''" ascii_env aged_cache]
      update_cache_command [of "''ups_cache.py''" silent_env aged_cache]
      ascii_env_query w t
    by (simp add: write_to_cache_def)
qed

section \<open>Claims about the forwarder\<close>

text \<open>
  Claim C8 does not hold of the code: \<open>temp_file_path\<close> is assigned only after the loop
  that writes the lines. With a snapshot whose string value the temporary file's encoding
  cannot encode, \<open>temp_file.write\<close> raises inside the \<open>with\<close> block; the handler prints the
  error, the \<open>finally\<close> block then raises \<open>UnboundLocalError\<close>, and the temporary file, holding
  the line written before the failure, stays on disk.
\<close>

theorem forwarder_leaves_temp_file:
  "raised (send_all_to_zabbix unencodable_snapshot (Some ZABBIX_HOSTNAME) ZABBIX_SERVER
             ascii_env empty_world) = Some UnboundLocalError \<and>
   tmp_dir (world_after (send_all_to_zabbix unencodable_snapshot (Some ZABBIX_HOSTNAME)
             ZABBIX_SERVER ascii_env empty_world)) ''/tmp/tmpq1w2e3''
     = Some [(''UPSMonitor'', ''battery_charge'', PInt 77)]"
  by code_simp

text \<open>
  When the temporary file is created and every line is written, the file is removed and
  nothing is raised, whatever the sender does.
\<close>

lemma forwarder_cleans_up_after_write:
  assumes "tmp_create e = Some path" "py_items data = Inr kvs"
    and "snd (write_lines (encodable e) (if h = [] then local_hostname e else h) kvs) = None"
  shows "raised (send_all_to_zabbix data (Some h) server e w) = None \<and>
         tmp_dir (world_after (send_all_to_zabbix data (Some h) server e w)) path = None"
proof (cases "h = []")
  case True
  with assms show ?thesis
    by (auto simp: send_all_to_zabbix_def try_body_def Let_def split: prod.splits option.splits)
next
  case False
  with assms show ?thesis
    by (auto simp: send_all_to_zabbix_def try_body_def Let_def split: prod.splits option.splits)
qed

text \<open>
  Claim C10. Invoked with exactly one positional argument, \<open>main\<close> prints that argument
  first: its output starts with the key, before any other line, on every path.
\<close>

theorem main_prints_key_first:
  assumes "length argv = 2"
  shows "\<exists>rest. stdout (main argv e w) = Line (argv ! 1) # rest"
  using assms
  by (auto simp: main_def Let_def split: prod.splits sum.splits bool.splits)

theorem main_prints_key_first_witness:
  "\<exists>rest. stdout (main [''ups_cache.py'', ''battery_charge''] ascii_env aged_cache)
           = Line ''battery_charge'' # rest"
  using main_prints_key_first [of "[''ups_cache.py'', ''battery_charge'']" ascii_env aged_cache]
  by simp

lemma main_metric_example:
  "stdout (main [''ups_cache.py'', ''battery_charge''] ascii_env aged_cache)
     = [Line ''battery_charge'', Shown (PInt 77)]"
  by code_simp

end
